theory Spec2Isabelle
  imports Main
begin

section \<open>Documents and collections\<close>

text \<open>
  The three Mongoose schemas of \<^verbatim>\<open>index.js\<close>. A schema path without \<^verbatim>\<open>required\<close> may be
  absent from a document, so such a field is an \<open>option\<close>. An \<^verbatim>\<open>ObjectId\<close> is kept abstract
  as a natural number. A JavaScript string is modelled as a \<open>string\<close>, one \<open>char\<close> for one
  code unit; code units above 255 are outside the model.
\<close>

type_synonym objectid = nat

record teacher_doc =
  t_id :: objectid
  t_name :: "string option"
  t_email :: "string option"
  t_password :: "string option"
  t_address :: "string option"
  t_status :: string

record student_doc =
  s_id :: objectid
  s_firstName :: "string option"
  s_lastName :: "string option"
  s_classId :: "objectid option"
  s_parentName :: "string option"
  s_address :: "string option"
  s_city :: "string option"

record class_doc =
  c_id :: objectid
  c_standard :: "string option"
  c_section :: "string option"
  c_status :: string
  c_teacherId :: "objectid option"

text \<open>The database: one collection per model, in insertion order.\<close>

record store =
  teachers :: "teacher_doc list"
  classes :: "class_doc list"
  students :: "student_doc list"

text \<open>The schema option \<^verbatim>\<open>trim: true\<close> applies \<^verbatim>\<open>String.prototype.trim\<close> to a value.\<close>

definition is_space :: "char \<Rightarrow> bool" where
  "is_space c = (c \<in> set [CHR 0x09, CHR 0x0A, CHR 0x0B, CHR 0x0C, CHR 0x0D, CHR 0x20, CHR 0xA0])"

definition trim :: "string \<Rightarrow> string" where
  "trim s = rev (dropWhile is_space (rev (dropWhile is_space s)))"

section \<open>Requests, responses and the collaborators\<close>

datatype jwt_error = JsonWebTokenError | TokenExpiredError | NotBeforeError

record payload =
  p_id :: objectid
  iat :: nat
  exp :: nat

datatype error = IllegalArguments | JwtFailure jwt_error | ValidationError | DuplicateKey | CastError

text \<open>
  A JSON value, as \<^verbatim>\<open>express.json()\<close> and the query parser hand it to the handlers, and
  the five places of a request in which \<^verbatim>\<open>check\<close> of \<^verbatim>\<open>express-validator\<close> looks for a
  field. An error of the validation layer says which value, at which place, failed.
\<close>

datatype json =
    JString string
  | JNumber int
  | JBool bool
  | JNull
  | JArray "json list"
  | JObject "(string \<times> json) list"

datatype location = Body | Cookies | Headers | Params | Query

record validation_error =
  ve_value :: "json option"
  ve_msg :: string
  ve_param :: string
  ve_location :: location

datatype populated_class = PopulatedClass (pc_doc: class_doc) (pc_teacherId: "teacher_doc option")

datatype populated_student = PopulatedStudent (ps_doc: student_doc) (ps_classId: "populated_class option")

text \<open>
  The JSON bodies the handlers send. \<open>Message\<close> is \<^verbatim>\<open>{message}\<close>, \<open>Errors\<close> is
  \<^verbatim>\<open>{errors}\<close>, \<open>UserMessage\<close> is \<^verbatim>\<open>{user, message}\<close>, \<open>UserTokenMessage\<close> is
  \<^verbatim>\<open>{user, token, message}\<close>, \<open>ClassMessage\<close> is \<^verbatim>\<open>{class, message}\<close> and
  \<open>StudentMessage\<close> is \<^verbatim>\<open>{student, message}\<close> (\<open>None\<close> for \<^verbatim>\<open>null\<close>), the two lists
  are the arrays of the list endpoints, and \<open>Failure\<close> is the error object sent by a
  \<^verbatim>\<open>catch\<close> block.
\<close>

datatype body =
    Message string
  | Errors "validation_error list"
  | UserMessage teacher_doc string
  | UserTokenMessage teacher_doc string string
  | ClassMessage "class_doc option" string
  | StudentMessage "student_doc option" string
  | ClassList "populated_class list"
  | StudentList "populated_student list"
  | Failure error

datatype response = Response (status: nat) (body: body)

text \<open>
  What the two validated endpoints read of a request: \<^verbatim>\<open>req.body\<close>, \<^verbatim>\<open>req.cookies\<close>,
  \<^verbatim>\<open>req.headers\<close>, \<^verbatim>\<open>req.params\<close> and \<^verbatim>\<open>req.query\<close>, each an object read by field
  name, a field absent or holding any JSON value. (\<^verbatim>\<open>index.js\<close> installs no cookie parser
  and these two routes have no parameter, so the requests it receives have these two
  objects empty; nothing below depends on that.) The bodies of the class and student
  endpoints are given with the fields their schemas know, each absent or present,
  reference fields already as identities.
\<close>

record input =
  req_body :: "string \<rightharpoonup> json"
  req_cookies :: "string \<rightharpoonup> json"
  req_headers :: "string \<rightharpoonup> json"
  req_params :: "string \<rightharpoonup> json"
  req_query :: "string \<rightharpoonup> json"

record class_fields =
  cf_standard :: "string option"
  cf_section :: "string option"
  cf_status :: "string option"
  cf_teacherId :: "objectid option"

record student_fields =
  sf_firstName :: "string option"
  sf_lastName :: "string option"
  sf_classId :: "objectid option"
  sf_parentName :: "string option"
  sf_address :: "string option"
  sf_city :: "string option"

datatype route =
    PostRegister input
  | PostLogin input
  | PostClass class_fields
  | PutClass string class_fields
  | DeleteClass string
  | GetClasses
  | PostStudent student_fields
  | PutStudent string student_fields
  | DeleteStudent string
  | GetStudents
  | GetPublicStudents

record request =
  authorization :: "string option"
  route :: route
  user :: "payload option"

text \<open>
  What a request finds outside itself: the signing secret of the process environment,
  the clock (in seconds), the identity the driver generates for a new document and the
  salt \<^verbatim>\<open>bcrypt.hash\<close> draws.
\<close>

record env =
  JWT_SECRET :: "string option"
  now :: nat
  new_id :: objectid
  salt :: string

text \<open>
  The functions of the packages \<^verbatim>\<open>validator\<close>, \<^verbatim>\<open>express-validator\<close>, \<^verbatim>\<open>bcryptjs\<close>,
  \<^verbatim>\<open>jsonwebtoken\<close> and \<^verbatim>\<open>mongoose\<close> that \<^verbatim>\<open>index.js\<close> calls and whose code is not
  part of the repository. They are parameters of the model: every theorem below holds for
  all of them. \<open>bcrypt_hash\<close> takes the plaintext, the cost and the salt; \<open>jwt_sign\<close> the
  identity claim, the secret, the \<^verbatim>\<open>expiresIn\<close> option and the clock; \<open>jwt_verify\<close> the
  token, the secret and the clock; \<open>castObjectId\<close> the text of a route parameter. The last
  three say what the packages do with a value that is not a string: \<open>stringify\<close> gives
  the values a validator reports and the strings it tests for it (one for a scalar, one
  for each element of an array), \<open>castString\<close> is the cast of a document path of type
  \<^verbatim>\<open>String\<close> (\<open>None\<close> when the cast fails) and \<open>findOne_nonstring\<close> is
  \<^verbatim>\<open>Teacher.findOne({ email })\<close> for such a filter value (a cast, an operator query or a
  cast error).
\<close>

record ext =
  isEmail :: "string \<Rightarrow> bool"
  bcrypt_hash :: "string \<Rightarrow> nat \<Rightarrow> string \<Rightarrow> string"
  bcrypt_compare :: "string \<Rightarrow> string \<Rightarrow> bool"
  jwt_sign :: "objectid \<Rightarrow> string option \<Rightarrow> string \<Rightarrow> nat \<Rightarrow> jwt_error + string"
  jwt_verify :: "string \<Rightarrow> string option \<Rightarrow> nat \<Rightarrow> jwt_error + payload"
  castObjectId :: "string \<Rightarrow> objectid option"
  stringify :: "json \<Rightarrow> (json \<times> string) list"
  castString :: "json \<Rightarrow> string option"
  findOne_nonstring :: "json \<Rightarrow> teacher_doc list \<Rightarrow> error + teacher_doc option"

section \<open>Validators\<close>

text \<open>
  A chain \<^verbatim>\<open>check(field, message)\<close> followed by its validators; \<open>NOT\<close> is \<^verbatim>\<open>.not()\<close>,
  which negates the validator after it.
\<close>

datatype validator = NOT | IsEmpty | IsEmail | IsLength nat

datatype chain = Check (field: string) (message: string) (validators: "validator list")

definition teacherRegistrationValidator :: "chain list" where
  "teacherRegistrationValidator =
    [Check ''name'' ''Name is required'' [NOT, IsEmpty],
     Check ''email'' ''Email is required'' [NOT, IsEmpty],
     Check ''email'' ''Email is invalid'' [IsEmail],
     Check ''password'' ''Password is required'' [NOT, IsEmpty],
     Check ''password'' ''Password must be at least 8 characters long'' [IsLength 8]]"

definition teacherLoginValidator :: "chain list" where
  "teacherLoginValidator =
    [Check ''email'' ''Email is required'' [NOT, IsEmpty],
     Check ''email'' ''Email is invalid'' [IsEmail],
     Check ''password'' ''Password is required'' [NOT, IsEmpty]]"

fun holds :: "ext \<Rightarrow> validator \<Rightarrow> string \<Rightarrow> bool" where
  "holds x NOT s = True"
| "holds x IsEmpty s = (s = [])"
| "holds x IsEmail s = isEmail x s"
| "holds x (IsLength n) s = (n \<le> length s)"

text \<open>The validators of a chain, each with the flag \<^verbatim>\<open>.not()\<close> has set for it.\<close>

fun steps :: "bool \<Rightarrow> validator list \<Rightarrow> (bool \<times> validator) list" where
  "steps negated [] = []"
| "steps negated (NOT # vs) = steps True vs"
| "steps negated (v # vs) = (negated, v) # steps False vs"

text \<open>
  \<^verbatim>\<open>check\<close> selects the field at each of the five places. Of these instances the
  validators run on those that have a value, on all of them; when the field is nowhere,
  they run on the instance of the body, whose value is \<^verbatim>\<open>undefined\<close>.
\<close>

definition locations :: "location list" where
  "locations = [Body, Cookies, Headers, Params, Query]"

definition lookup :: "input \<Rightarrow> location \<Rightarrow> string \<Rightarrow> json option" where
  "lookup inp l f =
     (case l of
        Body \<Rightarrow> req_body inp f
      | Cookies \<Rightarrow> req_cookies inp f
      | Headers \<Rightarrow> req_headers inp f
      | Params \<Rightarrow> req_params inp f
      | Query \<Rightarrow> req_query inp f)"

definition instances :: "input \<Rightarrow> string \<Rightarrow> (location \<times> json option) list" where
  "instances inp f =
     (let withValue = filter (\<lambda>i. snd i \<noteq> None) (map (\<lambda>l. (l, lookup inp l f)) locations)
      in if withValue = [] then [(Body, None)] else withValue)"

text \<open>
  A validator tests a string: an absent value as the empty string, a string as itself,
  any other value as the package stringifies it.
\<close>

definition tested :: "ext \<Rightarrow> json option \<Rightarrow> (json option \<times> string) list" where
  "tested x v =
     (case v of
        None \<Rightarrow> [(None, [])]
      | Some (JString s) \<Rightarrow> [(Some (JString s), s)]
      | Some j \<Rightarrow> map (\<lambda>(r, s). (Some r, s)) (stringify x j))"

text \<open>
  A chain runs every validator on every instance and reports one error, with the chain's
  message, for each test that fails; nothing stops it at a failure.
  \<^verbatim>\<open>validationResult\<close> collects the errors of all the chains of the route.
\<close>

definition run_chain :: "ext \<Rightarrow> input \<Rightarrow> chain \<Rightarrow> validation_error list" where
  "run_chain x inp c =
     concat (map (\<lambda>(negated, v).
       concat (map (\<lambda>(l, val).
         concat (map (\<lambda>(r, s).
           if holds x v s \<noteq> negated then []
           else [\<lparr>ve_value = r, ve_msg = message c, ve_param = field c, ve_location = l\<rparr>])
           (tested x val)))
         (instances inp (field c))))
       (steps False (validators c)))"

definition validationResult :: "ext \<Rightarrow> chain list \<Rightarrow> input \<Rightarrow> validation_error list" where
  "validationResult x cs inp = concat (map (run_chain x inp) cs)"

text \<open>
  The violations of one check, said directly: an error for each instance of the field and
  each string tested for it that does not satisfy the check.
\<close>

definition violations ::
  "ext \<Rightarrow> input \<Rightarrow> string \<Rightarrow> string \<Rightarrow> (string \<Rightarrow> bool) \<Rightarrow> validation_error list" where
  "violations x inp f m P =
     concat (map (\<lambda>(l, val).
       map (\<lambda>(r, s). \<lparr>ve_value = r, ve_msg = m, ve_param = f, ve_location = l\<rparr>)
         (filter (\<lambda>(r, s). \<not> P s) (tested x val)))
       (instances inp f))"

section \<open>The authorization gate\<close>

text \<open>\<^verbatim>\<open>String.prototype.split\<close> with a one-character separator, and \<^verbatim>\<open>xs[i]\<close>.\<close>

fun split_js :: "char \<Rightarrow> string \<Rightarrow> string list" where
  "split_js sep [] = [[]]"
| "split_js sep (c # cs) =
     (if c = sep then [] # split_js sep cs
      else (case split_js sep cs of [] \<Rightarrow> [[c]] | p # ps \<Rightarrow> (c # p) # ps))"

definition index_js :: "'a list \<Rightarrow> nat \<Rightarrow> 'a option" where
  "index_js xs i = (if i < length xs then Some (xs ! i) else None)"

text \<open>
  \<^verbatim>\<open>authHeader && authHeader.split(' ')[1]\<close>: an absent header gives \<^verbatim>\<open>undefined\<close>, an
  empty header gives itself, any other header the second of its space-separated parts,
  if there is one.
\<close>

definition token_of :: "string option \<Rightarrow> string option" where
  "token_of authHeader =
     (case authHeader of
        None \<Rightarrow> None
      | Some h \<Rightarrow> if h = [] then Some [] else index_js (split_js CHR '' '' h) 1)"

type_synonym handler = "request \<Rightarrow> store \<Rightarrow> response \<times> store"

definition authenticateToken :: "ext \<Rightarrow> env \<Rightarrow> request \<Rightarrow> handler \<Rightarrow> store \<Rightarrow> response \<times> store" where
  "authenticateToken x e req next st =
     (case token_of (authorization req) of
        None \<Rightarrow> (Response 401 (Message ''Access Denied: No Token Provided''), st)
      | Some token \<Rightarrow>
          if token = [] then (Response 401 (Message ''Access Denied: No Token Provided''), st)
          else (case jwt_verify x token (JWT_SECRET e) (now e) of
                  Inl err \<Rightarrow> (Response 400 (Message ''Invalid Token''), st)
                | Inr verified \<Rightarrow> next (req\<lparr>user := Some verified\<rparr>) st))"

section \<open>The store operations\<close>

text \<open>
  The Mongoose calls of the handlers, on a collection as a list. A string path with
  \<^verbatim>\<open>trim: true\<close> is trimmed when a document is built, when it is updated and in a query
  filter. \<^verbatim>\<open>save\<close> runs the schema's \<^verbatim>\<open>required\<close> validators (an absent or empty
  string fails) and inserts; the insert fails on a duplicate \<^verbatim>\<open>_id\<close> and, for teachers,
  on a duplicate of the \<^verbatim>\<open>unique\<close> email. \<^verbatim>\<open>findByIdAndUpdate\<close> and
  \<^verbatim>\<open>findByIdAndDelete\<close> act on the first document with the identity and return it (the
  updated one, by \<^verbatim>\<open>new: true\<close>), or \<^verbatim>\<open>null\<close> when there is none. A thrown error is
  \<open>Inl\<close>.
\<close>

definition Teacher_findOne :: "string option \<Rightarrow> teacher_doc list \<Rightarrow> teacher_doc option" where
  "Teacher_findOne email ts = find (\<lambda>t. t_email t = map_option trim email) ts"

definition new_Teacher ::
  "objectid \<Rightarrow> string option \<Rightarrow> string option \<Rightarrow> string option \<Rightarrow> string option \<Rightarrow> teacher_doc" where
  "new_Teacher oid name email password address =
     \<lparr>t_id = oid, t_name = map_option trim name, t_email = map_option trim email,
      t_password = map_option trim password, t_address = map_option trim address,
      t_status = ''ACTIVE''\<rparr>"

definition Teacher_save :: "teacher_doc \<Rightarrow> teacher_doc list \<Rightarrow> error + teacher_doc list" where
  "Teacher_save d ts =
     (if \<exists>t \<in> set ts. t_id t = t_id d \<or> t_email t = t_email d then Inl DuplicateKey
      else Inr (ts @ [d]))"

definition required :: "string option \<Rightarrow> bool" where
  "required v = (v \<noteq> None \<and> v \<noteq> Some [])"

definition new_Class :: "objectid \<Rightarrow> string option \<Rightarrow> string option \<Rightarrow> objectid option \<Rightarrow> class_doc" where
  "new_Class oid standard section teacherId =
     \<lparr>c_id = oid, c_standard = standard, c_section = section, c_status = ''ACTIVE'',
      c_teacherId = teacherId\<rparr>"

definition Class_save :: "class_doc \<Rightarrow> class_doc list \<Rightarrow> error + class_doc list" where
  "Class_save d cs =
     (if \<not> (required (c_standard d) \<and> required (c_section d)) then Inl ValidationError
      else if \<exists>c \<in> set cs. c_id c = c_id d then Inl DuplicateKey
      else Inr (cs @ [d]))"

definition new_Student :: "objectid \<Rightarrow> student_fields \<Rightarrow> student_doc" where
  "new_Student oid f =
     \<lparr>s_id = oid, s_firstName = map_option trim (sf_firstName f),
      s_lastName = map_option trim (sf_lastName f), s_classId = sf_classId f,
      s_parentName = map_option trim (sf_parentName f),
      s_address = map_option trim (sf_address f), s_city = map_option trim (sf_city f)\<rparr>"

definition Student_save :: "student_doc \<Rightarrow> student_doc list \<Rightarrow> error + student_doc list" where
  "Student_save d ss =
     (if \<exists>s \<in> set ss. s_id s = s_id d then Inl DuplicateKey else Inr (ss @ [d]))"

fun findOneAndUpdate :: "('a \<Rightarrow> bool) \<Rightarrow> ('a \<Rightarrow> 'a) \<Rightarrow> 'a list \<Rightarrow> 'a option \<times> 'a list" where
  "findOneAndUpdate P f [] = (None, [])"
| "findOneAndUpdate P f (d # ds) =
     (if P d then (Some (f d), f d # ds)
      else (case findOneAndUpdate P f ds of (r, ds') \<Rightarrow> (r, d # ds')))"

fun findOneAndDelete :: "('a \<Rightarrow> bool) \<Rightarrow> 'a list \<Rightarrow> 'a option \<times> 'a list" where
  "findOneAndDelete P [] = (None, [])"
| "findOneAndDelete P (d # ds) =
     (if P d then (Some d, ds)
      else (case findOneAndDelete P ds of (r, ds') \<Rightarrow> (r, d # ds')))"

text \<open>An update sets the fields the body has and leaves the others as they are.\<close>

definition merge :: "'a option \<Rightarrow> 'a option \<Rightarrow> 'a option" where
  "merge new old = (case new of None \<Rightarrow> old | Some v \<Rightarrow> Some v)"

definition update_Class :: "class_fields \<Rightarrow> class_doc \<Rightarrow> class_doc" where
  "update_Class f c =
     c\<lparr>c_standard := merge (cf_standard f) (c_standard c),
       c_section := merge (cf_section f) (c_section c),
       c_status := (case cf_status f of None \<Rightarrow> c_status c | Some v \<Rightarrow> v),
       c_teacherId := merge (cf_teacherId f) (c_teacherId c)\<rparr>"

definition update_Student :: "student_fields \<Rightarrow> student_doc \<Rightarrow> student_doc" where
  "update_Student f s =
     s\<lparr>s_firstName := merge (map_option trim (sf_firstName f)) (s_firstName s),
       s_lastName := merge (map_option trim (sf_lastName f)) (s_lastName s),
       s_classId := merge (sf_classId f) (s_classId s),
       s_parentName := merge (map_option trim (sf_parentName f)) (s_parentName s),
       s_address := merge (map_option trim (sf_address f)) (s_address s),
       s_city := merge (map_option trim (sf_city f)) (s_city s)\<rparr>"

text \<open>
  \<^verbatim>\<open>populate\<close> replaces a reference by the document it names, by \<^verbatim>\<open>null\<close> when no
  document has that identity; an absent reference stays empty.
\<close>

definition populate_teacherId :: "teacher_doc list \<Rightarrow> class_doc \<Rightarrow> populated_class" where
  "populate_teacherId ts c =
     PopulatedClass c
       (case c_teacherId c of None \<Rightarrow> None | Some tid \<Rightarrow> find (\<lambda>t. t_id t = tid) ts)"

definition populate_classId :: "store \<Rightarrow> student_doc \<Rightarrow> populated_student" where
  "populate_classId st s =
     PopulatedStudent s
       (case s_classId s of
          None \<Rightarrow> None
        | Some cid \<Rightarrow> map_option (populate_teacherId (teachers st)) (find (\<lambda>c. c_id c = cid) (classes st)))"

text \<open>
  The handlers pass the fields of \<^verbatim>\<open>req.body\<close> on as they are. \<^verbatim>\<open>bcryptjs\<close> rejects an
  argument that is not a string. \<^verbatim>\<open>Teacher.findOne({ email })\<close> with an absent email looks
  for a teacher without one. A field given to \<^verbatim>\<open>new Teacher\<close> is cast to a string, an
  absent or \<^verbatim>\<open>null\<close> one left empty; \<open>None\<close> is a failed cast, which makes \<^verbatim>\<open>save\<close>
  reject the document.
\<close>

definition hash_js :: "ext \<Rightarrow> json option \<Rightarrow> nat \<Rightarrow> string \<Rightarrow> error + string" where
  "hash_js x password rounds s =
     (case password of
        Some (JString p) \<Rightarrow> Inr (bcrypt_hash x p rounds s)
      | _ \<Rightarrow> Inl IllegalArguments)"

definition compare_js :: "ext \<Rightarrow> json option \<Rightarrow> string option \<Rightarrow> error + bool" where
  "compare_js x password hash =
     (case password of
        Some (JString p) \<Rightarrow>
          (case hash of None \<Rightarrow> Inl IllegalArguments | Some h \<Rightarrow> Inr (bcrypt_compare x p h))
      | _ \<Rightarrow> Inl IllegalArguments)"

definition findOne_email :: "ext \<Rightarrow> json option \<Rightarrow> teacher_doc list \<Rightarrow> error + teacher_doc option" where
  "findOne_email x email ts =
     (case email of
        None \<Rightarrow> Inr (Teacher_findOne None ts)
      | Some (JString s) \<Rightarrow> Inr (Teacher_findOne (Some s) ts)
      | Some j \<Rightarrow> findOne_nonstring x j ts)"

definition cast_String :: "ext \<Rightarrow> json option \<Rightarrow> string option option" where
  "cast_String x v =
     (case v of
        None \<Rightarrow> Some None
      | Some (JString s) \<Rightarrow> Some (Some s)
      | Some JNull \<Rightarrow> Some None
      | Some j \<Rightarrow> map_option Some (castString x j))"

section \<open>The handlers\<close>

definition register :: "ext \<Rightarrow> env \<Rightarrow> input \<Rightarrow> store \<Rightarrow> response \<times> store" where
  "register x e inp st =
     (let errors = validationResult x teacherRegistrationValidator inp in
      if errors \<noteq> [] then (Response 400 (Errors errors), st)
      else
        (case findOne_email x (req_body inp ''email'') (teachers st) of
           Inl err \<Rightarrow> (Response 500 (Failure err), st)
         | Inr (Some existingTeacher) \<Rightarrow> (Response 400 (Message ''Email already exists''), st)
         | Inr None \<Rightarrow>
             (case hash_js x (req_body inp ''password'') 10 (salt e) of
                Inl err \<Rightarrow> (Response 500 (Failure err), st)
              | Inr hashedPassword \<Rightarrow>
                  (case (cast_String x (req_body inp ''name''),
                         cast_String x (req_body inp ''email''),
                         cast_String x (req_body inp ''address'')) of
                     (Some name, Some email, Some address) \<Rightarrow>
                       (let newTeacher =
                              new_Teacher (new_id e) name email (Some hashedPassword) address
                        in case Teacher_save newTeacher (teachers st) of
                             Inl err \<Rightarrow> (Response 500 (Failure err), st)
                           | Inr ts \<Rightarrow>
                               (Response 200
                                  (UserMessage newTeacher ''Registration is done successfully''),
                                st\<lparr>teachers := ts\<rparr>))
                   | _ \<Rightarrow> (Response 500 (Failure ValidationError), st)))))"

definition login :: "ext \<Rightarrow> env \<Rightarrow> input \<Rightarrow> store \<Rightarrow> response \<times> store" where
  "login x e inp st =
     (let errors = validationResult x teacherLoginValidator inp in
      if errors \<noteq> [] then (Response 400 (Errors errors), st)
      else
        (case findOne_email x (req_body inp ''email'') (teachers st) of
           Inl err \<Rightarrow> (Response 500 (Failure err), st)
         | Inr None \<Rightarrow> (Response 400 (Message ''Invalid email or password''), st)
         | Inr (Some teacher) \<Rightarrow>
             (case compare_js x (req_body inp ''password'') (t_password teacher) of
                Inl err \<Rightarrow> (Response 500 (Failure err), st)
              | Inr isMatch \<Rightarrow>
                  if \<not> isMatch then (Response 400 (Message ''Invalid email or password''), st)
                  else
                    (case jwt_sign x (t_id teacher) (JWT_SECRET e) ''1h'' (now e) of
                       Inl err \<Rightarrow> (Response 500 (Failure (JwtFailure err)), st)
                     | Inr token \<Rightarrow>
                         (Response 200 (UserTokenMessage teacher token ''Login successful''), st)))))"

definition post_class :: "env \<Rightarrow> class_fields \<Rightarrow> store \<Rightarrow> response \<times> store" where
  "post_class e b st =
     (let newClass = new_Class (new_id e) (cf_standard b) (cf_section b) (cf_teacherId b) in
      case Class_save newClass (classes st) of
        Inl err \<Rightarrow> (Response 500 (Failure err), st)
      | Inr cs \<Rightarrow>
          (Response 200 (ClassMessage (Some newClass) ''Class added successfully''),
           st\<lparr>classes := cs\<rparr>))"

definition put_class :: "ext \<Rightarrow> string \<Rightarrow> class_fields \<Rightarrow> store \<Rightarrow> response \<times> store" where
  "put_class x id_param b st =
     (case castObjectId x id_param of
        None \<Rightarrow> (Response 500 (Failure CastError), st)
      | Some oid \<Rightarrow>
          (case findOneAndUpdate (\<lambda>c. c_id c = oid) (update_Class b) (classes st) of
             (updatedClass, cs) \<Rightarrow>
               (Response 200 (ClassMessage updatedClass ''Class updated successfully''),
                st\<lparr>classes := cs\<rparr>)))"

definition delete_class :: "ext \<Rightarrow> string \<Rightarrow> store \<Rightarrow> response \<times> store" where
  "delete_class x id_param st =
     (case castObjectId x id_param of
        None \<Rightarrow> (Response 500 (Failure CastError), st)
      | Some oid \<Rightarrow>
          (case findOneAndDelete (\<lambda>c. c_id c = oid) (classes st) of
             (deleted, cs) \<Rightarrow>
               (Response 200 (Message ''Class deleted successfully''), st\<lparr>classes := cs\<rparr>)))"

definition get_classes :: "store \<Rightarrow> response \<times> store" where
  "get_classes st =
     (Response 200 (ClassList (map (populate_teacherId (teachers st)) (classes st))), st)"

definition post_student :: "env \<Rightarrow> student_fields \<Rightarrow> store \<Rightarrow> response \<times> store" where
  "post_student e b st =
     (let newStudent = new_Student (new_id e) b in
      case Student_save newStudent (students st) of
        Inl err \<Rightarrow> (Response 500 (Failure err), st)
      | Inr ss \<Rightarrow>
          (Response 200 (StudentMessage (Some newStudent) ''Student added successfully''),
           st\<lparr>students := ss\<rparr>))"

definition put_student :: "ext \<Rightarrow> string \<Rightarrow> student_fields \<Rightarrow> store \<Rightarrow> response \<times> store" where
  "put_student x id_param b st =
     (case castObjectId x id_param of
        None \<Rightarrow> (Response 500 (Failure CastError), st)
      | Some oid \<Rightarrow>
          (case findOneAndUpdate (\<lambda>s. s_id s = oid) (update_Student b) (students st) of
             (updatedStudent, ss) \<Rightarrow>
               (Response 200 (StudentMessage updatedStudent ''Student updated successfully''),
                st\<lparr>students := ss\<rparr>)))"

definition delete_student :: "ext \<Rightarrow> string \<Rightarrow> store \<Rightarrow> response \<times> store" where
  "delete_student x id_param st =
     (case castObjectId x id_param of
        None \<Rightarrow> (Response 500 (Failure CastError), st)
      | Some oid \<Rightarrow>
          (case findOneAndDelete (\<lambda>s. s_id s = oid) (students st) of
             (deleted, ss) \<Rightarrow>
               (Response 200 (Message ''Student deleted successfully''), st\<lparr>students := ss\<rparr>)))"

definition get_students :: "store \<Rightarrow> response \<times> store" where
  "get_students st = (Response 200 (StudentList (map (populate_classId st) (students st))), st)"

definition get_public_students :: "store \<Rightarrow> response \<times> store" where
  "get_public_students st =
     (Response 200 (StudentList (map (populate_classId st) (students st))), st)"

section \<open>The routes\<close>

text \<open>Each route with the middleware \<^verbatim>\<open>index.js\<close> registers for it.\<close>

definition app :: "ext \<Rightarrow> env \<Rightarrow> request \<Rightarrow> store \<Rightarrow> response \<times> store" where
  "app x e req st =
     (case route req of
        PostRegister b \<Rightarrow> register x e b st
      | PostLogin b \<Rightarrow> login x e b st
      | PostClass b \<Rightarrow> authenticateToken x e req (\<lambda>req. post_class e b) st
      | PutClass id_param b \<Rightarrow> authenticateToken x e req (\<lambda>req. put_class x id_param b) st
      | DeleteClass id_param \<Rightarrow> authenticateToken x e req (\<lambda>req. delete_class x id_param) st
      | GetClasses \<Rightarrow> authenticateToken x e req (\<lambda>req. get_classes) st
      | PostStudent b \<Rightarrow> authenticateToken x e req (\<lambda>req. post_student e b) st
      | PutStudent id_param b \<Rightarrow> authenticateToken x e req (\<lambda>req. put_student x id_param b) st
      | DeleteStudent id_param \<Rightarrow> authenticateToken x e req (\<lambda>req. delete_student x id_param) st
      | GetStudents \<Rightarrow> authenticateToken x e req (\<lambda>req. get_students) st
      | GetPublicStudents \<Rightarrow> get_public_students st)"

text \<open>
  The endpoints that are open to a caller without a token: registration, login and the
  public student listing. Every other endpoint is protected.
\<close>

definition public_route :: "route \<Rightarrow> bool" where
  "public_route r =
     (case r of PostRegister b \<Rightarrow> True | PostLogin b \<Rightarrow> True | GetPublicStudents \<Rightarrow> True
      | _ \<Rightarrow> False)"

section \<open>A concrete instance\<close>

text \<open>
  Stand-ins for the packages, an environment and a store, on which the model runs on
  concrete requests. The stand-in verifier knows one token, \<open>''good''\<close>, which expires at
  second 3600; the stand-in hash prefixes the salt. Of the values that are not strings
  the stand-ins know the two booleans, which JavaScript writes \<^verbatim>\<open>true\<close> and \<^verbatim>\<open>false\<close>.
\<close>

definition demo_ext :: ext where
  "demo_ext =
     \<lparr>isEmail = (\<lambda>s. CHR ''@'' \<in> set s),
      bcrypt_hash = (\<lambda>p rounds s. s @ p),
      bcrypt_compare = (\<lambda>p h. h = ''salt'' @ p),
      jwt_sign = (\<lambda>oid secret expiresIn clock.
         case secret of None \<Rightarrow> Inl JsonWebTokenError | Some k \<Rightarrow> Inr ''good''),
      jwt_verify = (\<lambda>token secret clock.
         if token = ''good'' then
           (if clock < 3600 then Inr \<lparr>p_id = 1, iat = 0, exp = 3600\<rparr> else Inl TokenExpiredError)
         else Inl JsonWebTokenError),
      castObjectId = (\<lambda>s. if s = ''1'' then Some 1 else if s = ''2'' then Some 2 else None),
      stringify = (\<lambda>j. case j of JBool b \<Rightarrow> [(j, if b then ''true'' else ''false'')] | _ \<Rightarrow> [(j, [])]),
      castString = (\<lambda>j. case j of JBool b \<Rightarrow> Some (if b then ''true'' else ''false'') | _ \<Rightarrow> None),
      findOne_nonstring = (\<lambda>j ts. Inl CastError)\<rparr>"

definition demo_env :: env where
  "demo_env = \<lparr>JWT_SECRET = Some ''secret'', now = 10, new_id = 5, salt = ''salt''\<rparr>"

definition empty_input :: input where
  "empty_input =
     \<lparr>req_body = Map.empty, req_cookies = Map.empty, req_headers = Map.empty,
      req_params = Map.empty, req_query = Map.empty\<rparr>"

definition demo_store :: store where
  "demo_store =
     \<lparr>teachers = [\<lparr>t_id = 1, t_name = Some ''A'', t_email = Some ''a@x.com'',
                    t_password = Some ''saltpassword1'', t_address = None, t_status = ''ACTIVE''\<rparr>],
      classes = [\<lparr>c_id = 2, c_standard = Some ''5'', c_section = Some ''A'', c_status = ''ACTIVE'',
                   c_teacherId = Some 1\<rparr>],
      students = [\<lparr>s_id = 3, s_firstName = Some ''S'', s_lastName = None, s_classId = Some 2,
                    s_parentName = None, s_address = None, s_city = None\<rparr>,
                  \<lparr>s_id = 4, s_firstName = Some ''T'', s_lastName = None, s_classId = Some 9,
                    s_parentName = None, s_address = None, s_city = None\<rparr>]\<rparr>"

section \<open>The gate: extraction of the token\<close>

lemma split_js_nonempty: "split_js sep s \<noteq> []"
  by (induction s) (auto split: list.splits)

lemma split_js_no_sep: "sep \<notin> set s \<Longrightarrow> split_js sep s = [s]"
  by (induction s) auto

lemma split_js_append:
  "sep \<notin> set w \<Longrightarrow> split_js sep (w @ sep # r) = w # split_js sep r"
  by (induction w) auto

lemma token_of_scheme:
  assumes "CHR '' '' \<notin> set w" and "CHR '' '' \<notin> set t"
  shows "token_of (Some (w @ '' '' @ t)) = Some t"
  using assms by (simp add: token_of_def index_js_def split_js_append split_js_no_sep)

section \<open>The gate: its three outcomes\<close>

lemma gate_no_token:
  assumes "token_of (authorization req) = None \<or> token_of (authorization req) = Some []"
  shows "authenticateToken x e req next st =
           (Response 401 (Message ''Access Denied: No Token Provided''), st)"
  using assms by (auto simp: authenticateToken_def)

lemma gate_bad_token:
  assumes "token_of (authorization req) = Some tok" and "tok \<noteq> []"
    and "jwt_verify x tok (JWT_SECRET e) (now e) = Inl err"
  shows "authenticateToken x e req next st = (Response 400 (Message ''Invalid Token''), st)"
  using assms by (simp add: authenticateToken_def)

lemma gate_good_token:
  assumes "token_of (authorization req) = Some tok" and "tok \<noteq> []"
    and "jwt_verify x tok (JWT_SECRET e) (now e) = Inr verified"
  shows "authenticateToken x e req next st = next (req\<lparr>user := Some verified\<rparr>) st"
  using assms by (simp add: authenticateToken_def)

lemma app_protected:
  assumes "\<not> public_route (route req)"
  shows "\<exists>next. app x e req st = authenticateToken x e req next st"
  using assms by (cases "route req") (auto simp: app_def public_route_def)

text \<open>
  Claim C1. On every protected endpoint a request with no \<^verbatim>\<open>Authorization\<close> header, or
  with no token after the scheme, is answered 401 "Access Denied: No Token Provided", and
  a request whose token fails verification, for whatever reason, is answered 400
  "Invalid Token". In both cases the store is as before and the answer is the same
  whatever handler follows the gate: the handler does not run.
\<close>

theorem protected_endpoint_rejects:
  assumes "\<not> public_route (route req)"
  shows "(authorization req = None \<or> token_of (authorization req) = None
            \<or> token_of (authorization req) = Some [] \<longrightarrow>
          app x e req st = (Response 401 (Message ''Access Denied: No Token Provided''), st)
          \<and> (\<forall>next. authenticateToken x e req next st =
                (Response 401 (Message ''Access Denied: No Token Provided''), st)))
       \<and> (token_of (authorization req) = Some tok \<and> tok \<noteq> []
            \<and> jwt_verify x tok (JWT_SECRET e) (now e) = Inl err \<longrightarrow>
          app x e req st = (Response 400 (Message ''Invalid Token''), st)
          \<and> (\<forall>next. authenticateToken x e req next st =
                (Response 400 (Message ''Invalid Token''), st)))"
proof -
  obtain h where app: "app x e req st = authenticateToken x e req h st"
    using app_protected [OF assms] by blast
  have none: "authorization req = None \<Longrightarrow> token_of (authorization req) = None"
    by (simp add: token_of_def)
  show ?thesis
    using app none gate_no_token [of req x e _ st] gate_bad_token [of req tok x e err _ st]
    by metis
qed

theorem protected_endpoint_rejects_witness:
  "app demo_ext demo_env \<lparr>authorization = None, route = DeleteClass ''2'', user = None\<rparr> demo_store =
     (Response 401 (Message ''Access Denied: No Token Provided''), demo_store)
   \<and> app demo_ext demo_env \<lparr>authorization = Some ''Bearer '', route = GetStudents, user = None\<rparr> demo_store =
     (Response 401 (Message ''Access Denied: No Token Provided''), demo_store)
   \<and> app demo_ext (demo_env\<lparr>now := 4000\<rparr>)
       \<lparr>authorization = Some ''Bearer good'', route = DeleteClass ''2'', user = None\<rparr> demo_store =
     (Response 400 (Message ''Invalid Token''), demo_store)"
proof -
  let ?r1 = "\<lparr>authorization = None, route = DeleteClass ''2'', user = None\<rparr>"
  let ?r2 = "\<lparr>authorization = Some ''Bearer '', route = GetStudents, user = None\<rparr>"
  let ?r3 = "\<lparr>authorization = Some ''Bearer good'', route = DeleteClass ''2'', user = None\<rparr>"
  have t2: "token_of (Some ''Bearer '') = Some []"
    by (simp add: token_of_def index_js_def)
  have t3: "token_of (Some ''Bearer good'') = Some ''good''"
    by (simp add: token_of_def index_js_def)
  have v3: "jwt_verify demo_ext ''good'' (JWT_SECRET (demo_env\<lparr>now := 4000\<rparr>))
              (now (demo_env\<lparr>now := 4000\<rparr>)) = Inl TokenExpiredError"
    by (simp add: demo_ext_def demo_env_def)
  show ?thesis
    using protected_endpoint_rejects [of ?r1 demo_ext demo_env demo_store]
      protected_endpoint_rejects [of ?r2 demo_ext demo_env demo_store]
      protected_endpoint_rejects [of ?r3 demo_ext "demo_env\<lparr>now := 4000\<rparr>" demo_store
        "''good''" TokenExpiredError]
      t2 t3 v3
    by (simp add: public_route_def)
qed

text \<open>
  Claim C6, as stated, fails: the gate never looks at the scheme word. A header
  \<^verbatim>\<open>Basic good\<close> does not begin with \<^verbatim>\<open>Bearer \<close>, and its token is verified, accepted
  and the class listing runs.
\<close>

theorem scheme_word_not_checked_counterexample:
  "take 7 ''Basic good'' \<noteq> ''Bearer ''
   \<and> app demo_ext demo_env \<lparr>authorization = Some ''Basic good'', route = GetClasses, user = None\<rparr>
       demo_store =
     (Response 200
        (ClassList
           [PopulatedClass
              \<lparr>c_id = 2, c_standard = Some ''5'', c_section = Some ''A'', c_status = ''ACTIVE'',
                c_teacherId = Some 1\<rparr>
              (Some \<lparr>t_id = 1, t_name = Some ''A'', t_email = Some ''a@x.com'',
                     t_password = Some ''saltpassword1'', t_address = None,
                     t_status = ''ACTIVE''\<rparr>)]),
      demo_store)"
  by (simp add: app_def authenticateToken_def token_of_def index_js_def demo_ext_def demo_env_def
      get_classes_def demo_store_def populate_teacherId_def)

text \<open>
  Claim C6, amended. The gate takes as the token the text between the first and the
  second space of the header, whatever stands before the first space: for a header
  \<^verbatim>\<open>w t\<close> (neither \<open>w\<close> nor \<open>t\<close> with a space in it, \<open>w\<close> the word \<^verbatim>\<open>Bearer\<close> or any
  other) the request is answered 401 when \<open>t\<close> is empty, 400 when \<open>t\<close> fails verification,
  and goes on to the handler with the verified claim attached otherwise.
\<close>

theorem token_is_second_field:
  assumes "CHR '' '' \<notin> set w" and "CHR '' '' \<notin> set t"
    and "authorization req = Some (w @ '' '' @ t)"
  shows "authenticateToken x e req next st =
           (if t = [] then (Response 401 (Message ''Access Denied: No Token Provided''), st)
            else (case jwt_verify x t (JWT_SECRET e) (now e) of
                    Inl err \<Rightarrow> (Response 400 (Message ''Invalid Token''), st)
                  | Inr verified \<Rightarrow> next (req\<lparr>user := Some verified\<rparr>) st))"
proof -
  have "token_of (authorization req) = Some t"
    using assms token_of_scheme by simp
  then show ?thesis
    by (simp add: authenticateToken_def)
qed

theorem token_is_second_field_witness:
  "CHR '' '' \<notin> set ''Token'' \<and> CHR '' '' \<notin> set ''good''
   \<and> authenticateToken demo_ext demo_env
       \<lparr>authorization = Some ''Token good'', route = GetStudents, user = None\<rparr>
       (\<lambda>req. get_students) demo_store = get_students demo_store
   \<and> authenticateToken demo_ext demo_env
       \<lparr>authorization = Some ''Bearer good'', route = GetStudents, user = None\<rparr>
       (\<lambda>req. get_students) demo_store = get_students demo_store"
  using token_is_second_field [of "''Token''" "''good''"
      "\<lparr>authorization = Some ''Token good'', route = GetStudents, user = None\<rparr>"
      demo_ext demo_env "\<lambda>req. get_students" demo_store]
    token_is_second_field [of "''Bearer''" "''good''"
      "\<lparr>authorization = Some ''Bearer good'', route = GetStudents, user = None\<rparr>"
      demo_ext demo_env "\<lambda>req. get_students" demo_store]
  by (simp add: demo_ext_def demo_env_def)

text \<open>
  Claim C7. Whenever the gate hands a token to verification and verification fails, the
  response is 400 "Invalid Token", the same for every kind of failure: two failing
  requests get equal responses whatever the two errors are.
\<close>

theorem verification_failures_collapse:
  assumes "token_of (authorization req1) = Some t1" and "t1 \<noteq> []"
    and "jwt_verify x t1 (JWT_SECRET e1) (now e1) = Inl err1"
    and "token_of (authorization req2) = Some t2" and "t2 \<noteq> []"
    and "jwt_verify x t2 (JWT_SECRET e2) (now e2) = Inl err2"
  shows "fst (authenticateToken x e1 req1 next1 st1) = Response 400 (Message ''Invalid Token'')
       \<and> fst (authenticateToken x e2 req2 next2 st2) = fst (authenticateToken x e1 req1 next1 st1)"
  using assms by (simp add: authenticateToken_def)

theorem verification_failures_collapse_witness:
  "jwt_verify demo_ext ''good'' (JWT_SECRET demo_env) 4000 = Inl TokenExpiredError
   \<and> jwt_verify demo_ext ''forged'' (JWT_SECRET demo_env) 10 = Inl JsonWebTokenError
   \<and> fst (authenticateToken demo_ext (demo_env\<lparr>now := 4000\<rparr>)
        \<lparr>authorization = Some ''Bearer good'', route = GetClasses, user = None\<rparr>
        (\<lambda>req. get_classes) demo_store) = Response 400 (Message ''Invalid Token'')
   \<and> fst (authenticateToken demo_ext demo_env
        \<lparr>authorization = Some ''Bearer forged'', route = GetClasses, user = None\<rparr>
        (\<lambda>req. get_classes) demo_store) = Response 400 (Message ''Invalid Token'')"
proof -
  let ?r1 = "\<lparr>authorization = Some ''Bearer good'', route = GetClasses, user = None\<rparr>"
  let ?r2 = "\<lparr>authorization = Some ''Bearer forged'', route = GetClasses, user = None\<rparr>"
  have t1: "token_of (authorization ?r1) = Some ''good''"
    by (simp add: token_of_def index_js_def)
  have t2: "token_of (authorization ?r2) = Some ''forged''"
    by (simp add: token_of_def index_js_def)
  have v1: "jwt_verify demo_ext ''good'' (JWT_SECRET (demo_env\<lparr>now := 4000\<rparr>))
              (now (demo_env\<lparr>now := 4000\<rparr>)) = Inl TokenExpiredError"
    by (simp add: demo_ext_def demo_env_def)
  have v2: "jwt_verify demo_ext ''forged'' (JWT_SECRET demo_env) (now demo_env) = Inl JsonWebTokenError"
    by (simp add: demo_ext_def demo_env_def)
  have n1: "''good'' \<noteq> []" and n2: "''forged'' \<noteq> []"
    by simp_all
  show ?thesis
    using verification_failures_collapse [OF t1 n1 v1 t2 n2 v2,
        of "\<lambda>req. get_classes" demo_store "\<lambda>req. get_classes" demo_store]
      v1 v2
    by (simp add: demo_env_def)
qed

section \<open>Validation, registration and login\<close>

lemma concat_if_filter:
  "concat (map (\<lambda>(r, s). if Q s then [] else [g r]) xs) =
     map (\<lambda>(r, s). g r) (filter (\<lambda>(r, s). \<not> Q s) xs)"
  by (induction xs) auto

lemma holds_fun:
  "holds x IsEmpty = (\<lambda>s. s = [])" "holds x IsEmail = isEmail x"
  "holds x (IsLength n) = (\<lambda>s. n \<le> length s)"
  by (rule ext, simp)+

lemma run_chain_not_empty:
  "run_chain x inp (Check f m [NOT, IsEmpty]) = violations x inp f m (\<lambda>s. s \<noteq> [])"
  by (simp add: run_chain_def violations_def concat_if_filter holds_fun del: holds.simps)

lemma run_chain_email:
  "run_chain x inp (Check f m [IsEmail]) = violations x inp f m (isEmail x)"
  by (simp add: run_chain_def violations_def concat_if_filter holds_fun del: holds.simps)

lemma run_chain_length:
  "run_chain x inp (Check f m [IsLength n]) = violations x inp f m (\<lambda>s. n \<le> length s)"
  by (simp add: run_chain_def violations_def concat_if_filter holds_fun del: holds.simps)

lemma registration_errors:
  "validationResult x teacherRegistrationValidator inp =
     violations x inp ''name'' ''Name is required'' (\<lambda>s. s \<noteq> [])
     @ violations x inp ''email'' ''Email is required'' (\<lambda>s. s \<noteq> [])
     @ violations x inp ''email'' ''Email is invalid'' (isEmail x)
     @ violations x inp ''password'' ''Password is required'' (\<lambda>s. s \<noteq> [])
     @ violations x inp ''password'' ''Password must be at least 8 characters long''
         (\<lambda>s. 8 \<le> length s)"
  by (simp add: validationResult_def teacherRegistrationValidator_def run_chain_not_empty
      run_chain_email run_chain_length)

lemma login_errors:
  "validationResult x teacherLoginValidator inp =
     violations x inp ''email'' ''Email is required'' (\<lambda>s. s \<noteq> [])
     @ violations x inp ''email'' ''Email is invalid'' (isEmail x)
     @ violations x inp ''password'' ''Password is required'' (\<lambda>s. s \<noteq> [])"
  by (simp add: validationResult_def teacherLoginValidator_def run_chain_not_empty
      run_chain_email)

lemma register_invalid:
  "validationResult x teacherRegistrationValidator inp \<noteq> [] \<Longrightarrow>
   register x e inp st =
     (Response 400 (Errors (validationResult x teacherRegistrationValidator inp)), st)"
  by (simp add: register_def Let_def)

lemma login_invalid:
  "validationResult x teacherLoginValidator inp \<noteq> [] \<Longrightarrow>
   login x e inp st = (Response 400 (Errors (validationResult x teacherLoginValidator inp)), st)"
  by (simp add: login_def Let_def)

lemma Teacher_findOne_None:
  "Teacher_findOne q ts = None \<longleftrightarrow> map_option trim q \<notin> t_email ` set ts"
  unfolding Teacher_findOne_def find_None_iff by (metis (mono_tags, lifting) image_iff)

lemma trim_demo: "trim ''a@x.com'' = ''a@x.com''"
  by (simp add: trim_def is_space_def)

lemma instances_demo:
  "instances (empty_input\<lparr>req_body := b\<rparr>) f = [(Body, b f)]"
  "instances (empty_input\<lparr>req_body := b, req_query := q\<rparr>) f =
     (if b f = None then (if q f = None then [(Body, None)] else [(Query, q f)])
      else if q f = None then [(Body, b f)] else [(Body, b f), (Query, q f)])"
  by (auto simp: instances_def locations_def lookup_def empty_input_def)

lemma trim_nobody: "trim ''nobody@x.com'' = ''nobody@x.com''"
  by (simp add: trim_def is_space_def)

text \<open>
  Claim C8. The validators of registration and of login run every check on the input:
  the list of errors is, in the order of the checks, the violations of each of them, that
  is one error for every instance of the checked field, at whatever place of the request,
  whose tested string fails the check, and none for a test that passes. When the list is
  not empty the handler answers 400 with the whole list and leaves the store as it is.
\<close>

theorem validation_reports_every_violation:
  "validationResult x teacherRegistrationValidator inp =
     violations x inp ''name'' ''Name is required'' (\<lambda>s. s \<noteq> [])
     @ violations x inp ''email'' ''Email is required'' (\<lambda>s. s \<noteq> [])
     @ violations x inp ''email'' ''Email is invalid'' (isEmail x)
     @ violations x inp ''password'' ''Password is required'' (\<lambda>s. s \<noteq> [])
     @ violations x inp ''password'' ''Password must be at least 8 characters long''
         (\<lambda>s. 8 \<le> length s)
   \<and> validationResult x teacherLoginValidator inp =
     violations x inp ''email'' ''Email is required'' (\<lambda>s. s \<noteq> [])
     @ violations x inp ''email'' ''Email is invalid'' (isEmail x)
     @ violations x inp ''password'' ''Password is required'' (\<lambda>s. s \<noteq> [])
   \<and> (validationResult x teacherRegistrationValidator inp \<noteq> [] \<longrightarrow>
        register x e inp st =
          (Response 400 (Errors (validationResult x teacherRegistrationValidator inp)), st))
   \<and> (validationResult x teacherLoginValidator inp \<noteq> [] \<longrightarrow>
        login x e inp st =
          (Response 400 (Errors (validationResult x teacherLoginValidator inp)), st))"
  using registration_errors [of x inp] login_errors [of x inp] register_invalid [of x inp e st]
    login_invalid [of x inp e st]
  by blast

theorem validation_reports_every_violation_witness:
  "register demo_ext demo_env
     (empty_input\<lparr>req_body := [''name'' \<mapsto> JString [], ''email'' \<mapsto> JString ''b@x.com'',
                                 ''password'' \<mapsto> JString ''short'']\<rparr>) demo_store =
     (Response 400 (Errors
        [\<lparr>ve_value = Some (JString []), ve_msg = ''Name is required'', ve_param = ''name'',
          ve_location = Body\<rparr>,
         \<lparr>ve_value = Some (JString ''short''),
          ve_msg = ''Password must be at least 8 characters long'', ve_param = ''password'',
          ve_location = Body\<rparr>]), demo_store)
   \<and> register demo_ext demo_env
     (empty_input\<lparr>req_body := [''name'' \<mapsto> JString ''B'', ''email'' \<mapsto> JString ''b@x.com'',
                                 ''password'' \<mapsto> JBool True],
                   req_query := [''email'' \<mapsto> JString ''nobody'']\<rparr>) demo_store =
     (Response 400 (Errors
        [\<lparr>ve_value = Some (JString ''nobody''), ve_msg = ''Email is invalid'', ve_param = ''email'',
          ve_location = Query\<rparr>,
         \<lparr>ve_value = Some (JBool True),
          ve_msg = ''Password must be at least 8 characters long'', ve_param = ''password'',
          ve_location = Body\<rparr>]), demo_store)
   \<and> login demo_ext demo_env (empty_input\<lparr>req_body := [''email'' \<mapsto> JString ''nobody'']\<rparr>)
       demo_store =
     (Response 400 (Errors
        [\<lparr>ve_value = Some (JString ''nobody''), ve_msg = ''Email is invalid'', ve_param = ''email'',
          ve_location = Body\<rparr>,
         \<lparr>ve_value = None, ve_msg = ''Password is required'', ve_param = ''password'',
          ve_location = Body\<rparr>]),
      demo_store)"
  using validation_reports_every_violation [of demo_ext
      "empty_input\<lparr>req_body := [''name'' \<mapsto> JString [], ''email'' \<mapsto> JString ''b@x.com'',
                                 ''password'' \<mapsto> JString ''short'']\<rparr>" demo_env demo_store]
    validation_reports_every_violation [of demo_ext
      "empty_input\<lparr>req_body := [''name'' \<mapsto> JString ''B'', ''email'' \<mapsto> JString ''b@x.com'',
                                 ''password'' \<mapsto> JBool True],
                   req_query := [''email'' \<mapsto> JString ''nobody'']\<rparr>" demo_env demo_store]
    validation_reports_every_violation [of demo_ext
      "empty_input\<lparr>req_body := [''email'' \<mapsto> JString ''nobody'']\<rparr>" demo_env demo_store]
  by (simp add: violations_def instances_demo tested_def demo_ext_def)

text \<open>
  Claim C3, as stated, fails: validation runs before the email is looked up. A
  registration with the email of a stored teacher and no name is answered with the
  validation errors, not with "Email already exists".
\<close>

theorem duplicate_email_counterexample:
  "Some ''a@x.com'' \<in> t_email ` set (teachers demo_store)
   \<and> register demo_ext demo_env
       (empty_input\<lparr>req_body := [''email'' \<mapsto> JString ''a@x.com'',
                                   ''password'' \<mapsto> JString ''password1'']\<rparr>) demo_store =
     (Response 400 (Errors
        [\<lparr>ve_value = None, ve_msg = ''Name is required'', ve_param = ''name'',
          ve_location = Body\<rparr>]), demo_store)"
  by (simp add: register_invalid registration_errors violations_def instances_demo tested_def
      demo_ext_def demo_store_def)

text \<open>
  Claim C3, amended. For a registration whose email (trimmed, as the schema stores and
  queries it) is the email of a stored teacher: when the input passes validation the
  answer is 400 "Email already exists", when it fails validation the answer is 400 with
  the validation errors, and in both cases the store is unchanged.
\<close>

theorem duplicate_email_rejected:
  assumes "req_body inp ''email'' = Some (JString em)"
    and "Some (trim em) \<in> t_email ` set (teachers st)"
  shows "(validationResult x teacherRegistrationValidator inp = [] \<longrightarrow>
            register x e inp st = (Response 400 (Message ''Email already exists''), st))
       \<and> (validationResult x teacherRegistrationValidator inp \<noteq> [] \<longrightarrow>
            register x e inp st =
              (Response 400 (Errors (validationResult x teacherRegistrationValidator inp)), st))"
proof -
  have "Teacher_findOne (Some em) (teachers st) \<noteq> None"
    using assms(2) by (simp add: Teacher_findOne_None)
  then obtain t where "Teacher_findOne (Some em) (teachers st) = Some t"
    by blast
  then have "findOne_email x (req_body inp ''email'') (teachers st) = Inr (Some t)"
    using assms(1) by (simp add: findOne_email_def)
  then show ?thesis
    by (simp add: register_def Let_def)
qed

theorem duplicate_email_rejected_witness:
  "register demo_ext demo_env
     (empty_input\<lparr>req_body := [''name'' \<mapsto> JString ''B'', ''email'' \<mapsto> JString ''a@x.com'',
                                 ''password'' \<mapsto> JString ''password2'']\<rparr>) demo_store =
     (Response 400 (Message ''Email already exists''), demo_store)
   \<and> register demo_ext demo_env
     (empty_input\<lparr>req_body := [''email'' \<mapsto> JString ''a@x.com'', ''password'' \<mapsto> JString ''pw'']\<rparr>)
     demo_store =
     (Response 400 (Errors
        [\<lparr>ve_value = None, ve_msg = ''Name is required'', ve_param = ''name'',
          ve_location = Body\<rparr>,
         \<lparr>ve_value = Some (JString ''pw''),
          ve_msg = ''Password must be at least 8 characters long'', ve_param = ''password'',
          ve_location = Body\<rparr>]), demo_store)"
  using duplicate_email_rejected [of
      "empty_input\<lparr>req_body := [''name'' \<mapsto> JString ''B'', ''email'' \<mapsto> JString ''a@x.com'',
                                 ''password'' \<mapsto> JString ''password2'']\<rparr>"
      "''a@x.com''" demo_store demo_ext demo_env]
    duplicate_email_rejected [of
      "empty_input\<lparr>req_body := [''email'' \<mapsto> JString ''a@x.com'', ''password'' \<mapsto> JString ''pw'']\<rparr>"
      "''a@x.com''" demo_store demo_ext demo_env]
    trim_demo
  by (simp add: registration_errors violations_def instances_demo tested_def demo_ext_def
      demo_store_def)

text \<open>
  Claim C10 says that a login that passes validation gets the same answer for an email
  no teacher has and for the email of a teacher with a wrong password. The handler does
  not keep to it. The validator tests the password as a string, wherever in the request
  it finds one, and the handler gives \<^verbatim>\<open>req.body.password\<close> to \<^verbatim>\<open>bcrypt.compare\<close> as it
  is: with the password \<^verbatim>\<open>true\<close>, or with the password in the query and none in the
  body, the comparison throws for a registered email, which is answered 500, while an
  unregistered email is answered 400 "Invalid email or password" before any comparison.
\<close>

theorem login_reveals_registered_email:
  "Some ''a@x.com'' \<in> t_email ` set (teachers demo_store)
   \<and> Some ''nobody@x.com'' \<notin> t_email ` set (teachers demo_store)
   \<and> login demo_ext demo_env
       (empty_input\<lparr>req_body := [''email'' \<mapsto> JString ''a@x.com'', ''password'' \<mapsto> JBool True]\<rparr>)
       demo_store = (Response 500 (Failure IllegalArguments), demo_store)
   \<and> login demo_ext demo_env
       (empty_input\<lparr>req_body := [''email'' \<mapsto> JString ''nobody@x.com'',
                                   ''password'' \<mapsto> JBool True]\<rparr>)
       demo_store = (Response 400 (Message ''Invalid email or password''), demo_store)
   \<and> login demo_ext demo_env
       (empty_input\<lparr>req_body := [''email'' \<mapsto> JString ''a@x.com''],
                     req_query := [''password'' \<mapsto> JString ''password1'']\<rparr>)
       demo_store = (Response 500 (Failure IllegalArguments), demo_store)
   \<and> login demo_ext demo_env
       (empty_input\<lparr>req_body := [''email'' \<mapsto> JString ''nobody@x.com''],
                     req_query := [''password'' \<mapsto> JString ''password1'']\<rparr>)
       demo_store = (Response 400 (Message ''Invalid email or password''), demo_store)"
  by (simp add: login_def login_errors violations_def instances_demo tested_def demo_ext_def
      findOne_email_def Teacher_findOne_def trim_demo trim_nobody compare_js_def demo_store_def)

section \<open>Listing, update and delete\<close>

lemma findOneAndUpdate_missing:
  "\<forall>d \<in> set ds. \<not> P d \<Longrightarrow> findOneAndUpdate P f ds = (None, ds)"
  by (induction ds) auto

lemma findOneAndDelete_missing:
  "\<forall>d \<in> set ds. \<not> P d \<Longrightarrow> findOneAndDelete P ds = (None, ds)"
  by (induction ds) auto

lemma populate_classId_doc: "map ps_doc (map (populate_classId st) ss) = ss"
  by (induction ss) (auto simp: populate_classId_def)

lemma populate_classId_dangling:
  assumes "s_classId s = Some cid" and "cid \<notin> c_id ` set (classes st)"
  shows "populate_classId st s = PopulatedStudent s None"
proof -
  have "find (\<lambda>c. c_id c = cid) (classes st) = None"
    using assms(2) unfolding find_None_iff by blast
  then show ?thesis
    using assms(1) by (simp add: populate_classId_def)
qed

text \<open>
  Claim C5. The public student listing, and the protected one once the gate has let the
  request through, answer 200 with one entry for each stored student, in order, each
  carrying the student's own document; a student whose class reference names no stored
  class has an empty class field; and the store after the listing is the store before.
\<close>

theorem student_listing_total:
  assumes "route req = GetPublicStudents
           \<or> (route req = GetStudents \<and> token_of (authorization req) = Some tok \<and> tok \<noteq> []
               \<and> jwt_verify x tok (JWT_SECRET e) (now e) = Inr verified)"
  shows "app x e req st =
           (Response 200 (StudentList (map (populate_classId st) (students st))), st)
       \<and> map ps_doc (map (populate_classId st) (students st)) = students st
       \<and> (\<forall>s \<in> set (students st). \<forall>cid.
             s_classId s = Some cid \<and> cid \<notin> c_id ` set (classes st) \<longrightarrow>
             populate_classId st s = PopulatedStudent s None)"
proof -
  have "app x e req st = (Response 200 (StudentList (map (populate_classId st) (students st))), st)"
    using assms
    by (auto simp: app_def get_public_students_def get_students_def gate_good_token)
  then show ?thesis
    using populate_classId_doc populate_classId_dangling by blast
qed

theorem student_listing_total_witness:
  "app demo_ext demo_env \<lparr>authorization = None, route = GetPublicStudents, user = None\<rparr> demo_store =
     (Response 200 (StudentList
        [PopulatedStudent
           \<lparr>s_id = 3, s_firstName = Some ''S'', s_lastName = None, s_classId = Some 2,
             s_parentName = None, s_address = None, s_city = None\<rparr>
           (Some (PopulatedClass
              \<lparr>c_id = 2, c_standard = Some ''5'', c_section = Some ''A'', c_status = ''ACTIVE'',
                c_teacherId = Some 1\<rparr>
              (Some \<lparr>t_id = 1, t_name = Some ''A'', t_email = Some ''a@x.com'',
                     t_password = Some ''saltpassword1'', t_address = None,
                     t_status = ''ACTIVE''\<rparr>))),
         PopulatedStudent
           \<lparr>s_id = 4, s_firstName = Some ''T'', s_lastName = None, s_classId = Some 9,
             s_parentName = None, s_address = None, s_city = None\<rparr>
           None]), demo_store)
   \<and> app demo_ext demo_env \<lparr>authorization = Some ''Bearer good'', route = GetStudents, user = None\<rparr>
       demo_store =
     app demo_ext demo_env \<lparr>authorization = None, route = GetPublicStudents, user = None\<rparr> demo_store"
proof -
  let ?r1 = "\<lparr>authorization = None, route = GetPublicStudents, user = None\<rparr>"
  let ?r2 = "\<lparr>authorization = Some ''Bearer good'', route = GetStudents, user = None\<rparr>"
  have t2: "token_of (authorization ?r2) = Some ''good''"
    by (simp add: token_of_def index_js_def)
  have v2: "jwt_verify demo_ext ''good'' (JWT_SECRET demo_env) (now demo_env) =
              Inr \<lparr>p_id = 1, iat = 0, exp = 3600\<rparr>"
    by (simp add: demo_ext_def demo_env_def)
  have l: "map (populate_classId demo_store) (students demo_store) =
     [PopulatedStudent
           \<lparr>s_id = 3, s_firstName = Some ''S'', s_lastName = None, s_classId = Some 2,
             s_parentName = None, s_address = None, s_city = None\<rparr>
           (Some (PopulatedClass
              \<lparr>c_id = 2, c_standard = Some ''5'', c_section = Some ''A'', c_status = ''ACTIVE'',
                c_teacherId = Some 1\<rparr>
              (Some \<lparr>t_id = 1, t_name = Some ''A'', t_email = Some ''a@x.com'',
                     t_password = Some ''saltpassword1'', t_address = None,
                     t_status = ''ACTIVE''\<rparr>))),
         PopulatedStudent
           \<lparr>s_id = 4, s_firstName = Some ''T'', s_lastName = None, s_classId = Some 9,
             s_parentName = None, s_address = None, s_city = None\<rparr>
           None]"
    by (simp add: demo_store_def populate_classId_def populate_teacherId_def)
  show ?thesis
    using student_listing_total [of ?r1 "''good''" demo_ext demo_env _ demo_store]
      student_listing_total [of ?r2 "''good''" demo_ext demo_env "\<lparr>p_id = 1, iat = 0, exp = 3600\<rparr>"
        demo_store]
      t2 v2 l
    by simp
qed

text \<open>
  Claim C9. For a route parameter that is an identity no class (no student) has, the
  update answers 200 with a \<^verbatim>\<open>null\<close> entity and the delete answers 200 with its success
  message, both with the store unchanged; the delete answers with that message whether
  or not a document had the identity.
\<close>

theorem missing_identity_is_no_error:
  assumes "castObjectId x id_param = Some oid"
  shows "(oid \<notin> c_id ` set (classes st) \<longrightarrow>
            put_class x id_param cb st =
              (Response 200 (ClassMessage None ''Class updated successfully''), st)
          \<and> delete_class x id_param st =
              (Response 200 (Message ''Class deleted successfully''), st))
       \<and> (oid \<notin> s_id ` set (students st) \<longrightarrow>
            put_student x id_param sb st =
              (Response 200 (StudentMessage None ''Student updated successfully''), st)
          \<and> delete_student x id_param st =
              (Response 200 (Message ''Student deleted successfully''), st))
       \<and> fst (delete_class x id_param st) = Response 200 (Message ''Class deleted successfully'')
       \<and> fst (delete_student x id_param st) =
           Response 200 (Message ''Student deleted successfully'')"
proof -
  have c: "oid \<notin> c_id ` set (classes st) \<Longrightarrow> \<forall>d \<in> set (classes st). \<not> c_id d = oid"
    by blast
  have s: "oid \<notin> s_id ` set (students st) \<Longrightarrow> \<forall>d \<in> set (students st). \<not> s_id d = oid"
    by blast
  have 1: "oid \<notin> c_id ` set (classes st) \<Longrightarrow>
      put_class x id_param cb st =
        (Response 200 (ClassMessage None ''Class updated successfully''), st)
      \<and> delete_class x id_param st = (Response 200 (Message ''Class deleted successfully''), st)"
    using assms c
    by (simp add: put_class_def delete_class_def findOneAndUpdate_missing findOneAndDelete_missing)
  have 2: "oid \<notin> s_id ` set (students st) \<Longrightarrow>
      put_student x id_param sb st =
        (Response 200 (StudentMessage None ''Student updated successfully''), st)
      \<and> delete_student x id_param st =
        (Response 200 (Message ''Student deleted successfully''), st)"
    using assms s
    by (simp add: put_student_def delete_student_def findOneAndUpdate_missing
        findOneAndDelete_missing)
  have 3: "fst (delete_class x id_param st) = Response 200 (Message ''Class deleted successfully'')"
    using assms by (simp add: delete_class_def split: prod.splits)
  have 4: "fst (delete_student x id_param st) =
      Response 200 (Message ''Student deleted successfully'')"
    using assms by (simp add: delete_student_def split: prod.splits)
  show ?thesis
    using 1 2 3 4 by blast
qed

theorem missing_identity_is_no_error_witness:
  "castObjectId demo_ext ''1'' = Some 1
   \<and> 1 \<notin> c_id ` set (classes demo_store) \<and> 1 \<notin> s_id ` set (students demo_store)
   \<and> put_class demo_ext ''1''
       \<lparr>cf_standard = Some ''6'', cf_section = None, cf_status = None, cf_teacherId = None\<rparr>
       demo_store =
     (Response 200 (ClassMessage None ''Class updated successfully''), demo_store)
   \<and> delete_class demo_ext ''1'' demo_store =
     (Response 200 (Message ''Class deleted successfully''), demo_store)
   \<and> put_student demo_ext ''1''
       \<lparr>sf_firstName = Some ''U'', sf_lastName = None, sf_classId = None, sf_parentName = None,
         sf_address = None, sf_city = None\<rparr> demo_store =
     (Response 200 (StudentMessage None ''Student updated successfully''), demo_store)
   \<and> delete_student demo_ext ''1'' demo_store =
     (Response 200 (Message ''Student deleted successfully''), demo_store)"
proof -
  have c: "castObjectId demo_ext ''1'' = Some 1"
    by (simp add: demo_ext_def)
  have n: "1 \<notin> c_id ` set (classes demo_store)" "1 \<notin> s_id ` set (students demo_store)"
    by (simp_all add: demo_store_def)
  show ?thesis
    using missing_identity_is_no_error [OF c, of demo_store
        "\<lparr>cf_standard = Some ''6'', cf_section = None, cf_status = None, cf_teacherId = None\<rparr>"
        "\<lparr>sf_firstName = Some ''U'', sf_lastName = None, sf_classId = None, sf_parentName = None,
         sf_address = None, sf_city = None\<rparr>"]
      c n
    by blast
qed

end
